theory Spec2Isabelle
  imports Complex_Main
begin

section \<open>Snapshot resampling, frame interpolation and camera paths\<close>

text \<open>
  A shallow embedding of three files of the video pipeline:
  \<^verbatim>\<open>scripts/data_exporter.py\<close> (class SimulationDataExporter),
  \<^verbatim>\<open>scripts/interpolator.py\<close> (class FrameInterpolator) and
  \<^verbatim>\<open>scripts/camera_paths.py\<close> (class CameraPathController).

  Python floats are modelled as \<^typ>\<open>real\<close>: rounding, infinities and NaN are not part
  of the model, except for the product \<^verbatim>\<open>duration * fps\<close> of camera_paths.py, whose
  rounding decides a number of frames. The inputs on which a statement of the specification is shown to fail use
  only small integers and dyadic fractions, on which binary floating point computes the
  same values.
\<close>

subsection \<open>Errors\<close>

text \<open>The Python exceptions the modelled functions can raise.\<close>

datatype error = IndexError | KeyError | ValueError | Misaligned

text \<open>
  \<^const>\<open>Misaligned\<close> is not a Python exception: it marks the one place where the model
  stops, the combination of two differently labelled pandas Series with \<^verbatim>\<open>&\<close> in
  \<^verbatim>\<open>_interpolate_fire_states\<close> (pandas aligns the labels there).
\<close>

subsection \<open>The snapshot search of the exporter\<close>

text \<open>
  \<^verbatim>\<open>
  for i in range(len(sorted_times) - 1):
      if sorted_times[i] <= sim_time <= sorted_times[i + 1]:
          return i, i + 1
  \<close>
  The loop, started at index \<open>i\<close> on the rest of the list: the first \<open>i\<close> whose
  neighbouring pair encloses the time, if there is one.
\<close>

fun first_enclosing :: "real \<Rightarrow> real list \<Rightarrow> nat \<Rightarrow> nat option" where
  "first_enclosing q (a # b # ts) i =
     (if a \<le> q \<and> q \<le> b then Some i else first_enclosing q (b # ts) (Suc i))"
| "first_enclosing q ts i = None"

text \<open>
  \<^verbatim>\<open>SimulationDataExporter._find_snapshot_indices(sim_time, sorted_times)\<close>.
  After the loop, \<^verbatim>\<open>sorted_times[0]\<close> raises IndexError on the empty list.
\<close>

definition find_snapshot_indices :: "real \<Rightarrow> real list \<Rightarrow> error + nat \<times> nat" where
  "find_snapshot_indices sim_time sorted_times =
     (case first_enclosing sim_time sorted_times 0 of
        Some i \<Rightarrow> Inr (i, i + 1)
      | None \<Rightarrow>
         (case sorted_times of
            [] \<Rightarrow> Inl IndexError
          | t0 # _ \<Rightarrow>
              if sim_time < t0 then Inr (0, 0)
              else Inr (length sorted_times - 1, length sorted_times - 1)))"

text \<open>
  The head of \<^verbatim>\<open>export_for_video\<close>: the timestamps are sorted, and fewer than two
  of them raise ValueError.
  \<^verbatim>\<open>
  sorted_times = sorted([float(t) for t in simulation_snapshots.keys()])
  if len(sorted_times) < 2:
      raise ValueError("Need at least 2 snapshots for video generation")
  \<close>
\<close>

definition export_sorted_times :: "real list \<Rightarrow> error + real list" where
  "export_sorted_times keys =
     (let sorted_times = sort keys
      in if length sorted_times < 2 then Inl ValueError else Inr sorted_times)"

subsection \<open>The interpolation factor\<close>

text \<open>
  Both \<^verbatim>\<open>_interpolate_snapshot\<close> (data_exporter.py, line 125) and
  \<^verbatim>\<open>_interpolate_fire_states\<close> (interpolator.py, line 115) compute
  \<^verbatim>\<open>alpha = (target_time - t1) / (t2 - t1) if t2 != t1 else 0\<close>.
\<close>

definition interpolation_factor :: "real \<Rightarrow> real \<Rightarrow> real \<Rightarrow> real" where
  "interpolation_factor target_time t1 t2 =
     (if t2 \<noteq> t1 then (target_time - t1) / (t2 - t1) else 0)"

text \<open>\<^verbatim>\<open>np.clip(x, lo, hi)\<close> on one number.\<close>

definition clip :: "real \<Rightarrow> real \<Rightarrow> real \<Rightarrow> real" where
  "clip x lo hi = min (max x lo) hi"

text \<open>
  The blend factor in the words of the specification, for comparison:
  "alpha = 0 if t_i == t_j, else clamp((q - t_i) / (t_j - t_i), 0, 1)".
\<close>

definition spec_blend_factor :: "real \<Rightarrow> real \<Rightarrow> real \<Rightarrow> real" where
  "spec_blend_factor q t_i t_j = (if t_i = t_j then 0 else clip ((q - t_i) / (t_j - t_i)) 0 1)"

subsection \<open>Snapshots\<close>

text \<open>
  A snapshot is a pandas DataFrame: an index of cell coordinates \<open>(x, y)\<close>, a column
  \<^verbatim>\<open>state\<close> of strings, and the optional columns \<^verbatim>\<open>moisture\<close>,
  \<^verbatim>\<open>temperature\<close>, \<^verbatim>\<open>elevation\<close>. Columns are kept by position: entry \<open>p\<close> of
  a column belongs to entry \<open>p\<close> of the index. Coordinates are natural numbers (the grid
  starts at 0), and every snapshot has the state column.
\<close>

type_synonym coord = "nat \<times> nat"

record snapshot =
  index :: "coord list"
  state :: "string list"
  moisture :: "real list option"
  temperature :: "real list option"
  elevation :: "real list option"

text \<open>A pandas Series: its index and its values.\<close>

type_synonym 'a series = "coord list \<times> 'a list"




subsection \<open>The exporter's interpolation\<close>

text \<open>
  \<^verbatim>\<open>SimulationDataExporter._interpolate_states(states1, states2, alpha)\<close>.
  \<^verbatim>\<open>states1 != states2\<close> compares two Series, which pandas refuses with ValueError
  unless both carry the same index. With \<^verbatim>\<open>transition_threshold = 0.5\<close>, a cell whose
  state changed takes the state of \<^verbatim>\<open>states2\<close> when \<^verbatim>\<open>alpha > 0.5\<close>.
\<close>

definition interpolate_states :: "string series \<Rightarrow> string series \<Rightarrow> real \<Rightarrow> error + string list" where
  "interpolate_states states1 states2 alpha =
     (if fst states1 \<noteq> fst states2 then Inl ValueError
      else Inr (map2 (\<lambda>s1 s2. if s1 \<noteq> s2 \<and> alpha > 1 / 2 then s2 else s1)
                  (snd states1) (snd states2)))"

text \<open>
  \<^verbatim>\<open>
  if col in snapshot1.columns and col in snapshot2.columns:
      interpolated[col] = (1 - alpha) * snapshot1[col] + alpha * snapshot2[col]
  \<close>
  for one column; otherwise the column stays as the copy of \<^verbatim>\<open>snapshot1\<close> has it.
  The sum is taken by position, which is what pandas computes when both snapshots carry
  the same index; with different indexes the state comparison that follows raises.
\<close>

definition blend_column :: "real \<Rightarrow> real list option \<Rightarrow> real list option \<Rightarrow> real list option" where
  "blend_column alpha col1 col2 =
     (case col1 of
        None \<Rightarrow> None
      | Some v1 \<Rightarrow>
         (case col2 of
            None \<Rightarrow> Some v1
          | Some v2 \<Rightarrow> Some (map2 (\<lambda>a b. (1 - alpha) * a + alpha * b) v1 v2)))"

text \<open>
  \<^verbatim>\<open>snapshots[str(sorted_times[idx])]\<close>: the dictionary of snapshots is keyed by the
  timestamp (the model identifies a timestamp with its string).
\<close>

definition lookup_snapshot :: "(real \<rightharpoonup> snapshot) \<Rightarrow> real list \<Rightarrow> nat \<Rightarrow> error + snapshot" where
  "lookup_snapshot snapshots sorted_times idx =
     (if idx < length sorted_times
      then (case snapshots (sorted_times ! idx) of None \<Rightarrow> Inl KeyError | Some s \<Rightarrow> Inr s)
      else Inl IndexError)"

text \<open>
  \<^verbatim>\<open>SimulationDataExporter._interpolate_snapshot(sim_time, sorted_times, snapshots, indices)\<close>.
\<close>

definition interpolate_snapshot ::
  "real \<Rightarrow> real list \<Rightarrow> (real \<rightharpoonup> snapshot) \<Rightarrow> nat \<times> nat \<Rightarrow> error + snapshot" where
  "interpolate_snapshot sim_time sorted_times snapshots indices =
     (case indices of (idx1, idx2) \<Rightarrow>
        if idx1 = idx2 then lookup_snapshot snapshots sorted_times idx1
        else if \<not> (idx1 < length sorted_times \<and> idx2 < length sorted_times) then Inl IndexError
        else
          let t1 = sorted_times ! idx1; t2 = sorted_times ! idx2
          in (case snapshots t1 of
                None \<Rightarrow> Inl KeyError
              | Some snapshot1 \<Rightarrow>
                 (case snapshots t2 of
                    None \<Rightarrow> Inl KeyError
                  | Some snapshot2 \<Rightarrow>
                     let alpha = interpolation_factor sim_time t1 t2;
                         interpolated = snapshot1
                           \<lparr>moisture := blend_column alpha (moisture snapshot1) (moisture snapshot2),
                            temperature := blend_column alpha (temperature snapshot1) (temperature snapshot2),
                            elevation := blend_column alpha (elevation snapshot1) (elevation snapshot2)\<rparr>
                     in (case interpolate_states (index snapshot1, state snapshot1)
                                (index snapshot2, state snapshot2) alpha of
                           Inl e \<Rightarrow> Inl e
                         | Inr st \<Rightarrow> Inr (interpolated\<lparr>state := st\<rparr>)))))"

subsection \<open>The fire-front probability of the frame interpolator\<close>











subsection \<open>The fire states of the frame interpolator\<close>



text \<open>
  Lines 96 to 103: the bracket \<^verbatim>\<open>(idx_before, idx_after)\<close>, which starts as
  \<^verbatim>\<open>(0, len(timestamps) - 1)\<close> and is replaced by the first enclosing pair.
\<close>

definition surrounding_snapshots :: "real list \<Rightarrow> real \<Rightarrow> nat \<times> nat" where
  "surrounding_snapshots timestamps target_time =
     (case first_enclosing target_time timestamps 0 of
        Some i \<Rightarrow> (i, i + 1)
      | None \<Rightarrow> (0, length timestamps - 1))"


subsection \<open>Camera paths\<close>

text \<open>A keyframe dictionary and a camera position dictionary of camera_paths.py.\<close>

record keyframe =
  kf_time :: real
  kf_azimuth :: real
  kf_elevation :: real
  kf_distance :: real

record camera_pos =
  frame :: nat
  time :: real
  azimuth :: real
  elevation :: real
  distance :: real

text \<open>
  SciPy's \<^verbatim>\<open>interp1d(x, y, kind=smoothing, fill_value='extrapolate')\<close> is taken from
  outside: given the kind and the two arrays it either raises or gives the interpolating
  function.
\<close>

type_synonym interp1d = "string \<Rightarrow> real list \<Rightarrow> real list \<Rightarrow> error + (real \<Rightarrow> real)"

text \<open>
  Python computes \<^verbatim>\<open>duration * fps\<close> in double precision: the result is the exact
  product rounded to a double, and the rounding can reach the next integer (the double
  nearest to 0.7, times 10, gives 7.0). The rounded product is taken from outside, as a
  function of the two factors.
\<close>

type_synonym float_product = "real \<Rightarrow> real \<Rightarrow> real"

text \<open>Python's \<^verbatim>\<open>int(x)\<close> on a float rounds towards zero.\<close>

definition py_int :: "real \<Rightarrow> int" where
  "py_int r = (if 0 \<le> r then \<lfloor>r\<rfloor> else \<lceil>r\<rceil>)"

text \<open>
  \<^verbatim>\<open>CameraPathController.generate_camera_path(key_points, duration, fps, smoothing)\<close>.
  \<^verbatim>\<open>total_frames = int(duration * fps)\<close> is taken of the double product \<open>fmul\<close>.
  \<^verbatim>\<open>range(total_frames)\<close> is empty when \<^verbatim>\<open>total_frames\<close> is not positive; with
  \<^verbatim>\<open>fps = 0\<close> it is empty, so the division \<^verbatim>\<open>frame / fps\<close> is never reached.
\<close>

definition generate_camera_path ::
  "interp1d \<Rightarrow> float_product \<Rightarrow> keyframe list \<Rightarrow> real \<Rightarrow> int \<Rightarrow> string
     \<Rightarrow> error + camera_pos list" where
  "generate_camera_path interp fmul key_points duration fps smoothing =
     (let total_frames = py_int (fmul duration (real_of_int fps));
          times = map kf_time key_points;
          azimuths = map kf_azimuth key_points;
          elevations = map kf_elevation key_points;
          distances = map kf_distance key_points
      in case interp smoothing times azimuths of
           Inl e \<Rightarrow> Inl e
         | Inr azimuth_interp \<Rightarrow>
            (case interp smoothing times elevations of
               Inl e \<Rightarrow> Inl e
             | Inr elevation_interp \<Rightarrow>
                (case interp smoothing times distances of
                   Inl e \<Rightarrow> Inl e
                 | Inr distance_interp \<Rightarrow>
                    Inr (map (\<lambda>f. let t = real f / real_of_int fps
                                   in \<lparr>frame = f, time = t, azimuth = azimuth_interp t,
                                       elevation = elevation_interp t,
                                       distance = distance_interp t\<rparr>)
                             [0..<nat total_frames]))))"

text \<open>
  An instance of the interpolation for the kind \<^verbatim>\<open>'linear'\<close>, after the SciPy
  documentation: on sorted \<open>x\<close> the value at \<open>t\<close> is
  \<open>y_lo + (y_hi - y_lo) / (x_hi - x_lo) * (t - x_lo)\<close> on the segment that holds \<open>t\<close>, and
  \<^verbatim>\<open>fill_value='extrapolate'\<close> continues the first and the last segment outside the
  range. Other kinds are not part of this instance.
\<close>

fun linear_segments :: "real list \<Rightarrow> real list \<Rightarrow> real \<Rightarrow> real" where
  "linear_segments (x0 # x1 # xs) (y0 # y1 # ys) t =
     (if t \<le> x1 \<or> xs = [] \<or> ys = [] then y0 + (y1 - y0) / (x1 - x0) * (t - x0)
      else linear_segments (x1 # xs) (y1 # ys) t)"
| "linear_segments xs ys t = 0"

definition interp1d_linear :: interp1d where
  "interp1d_linear kind x y =
     (if kind = ''linear'' \<and> length x = length y \<and> 2 \<le> length x
      then Inr (linear_segments x y) else Inl ValueError)"

text \<open>
  SciPy builds the kinds \<^verbatim>\<open>'quadratic'\<close> and \<^verbatim>\<open>'cubic'\<close> as interpolating
  splines of order 2 and 3 (\<^verbatim>\<open>make_interp_spline\<close>), which raises ValueError when
  there are fewer points than the order plus one. \<open>interp1d_checked build\<close> is a
  construction \<open>build\<close> behind that check.
\<close>

definition spline_order :: "string \<Rightarrow> nat option" where
  "spline_order kind =
     (if kind = ''quadratic'' then Some 2 else if kind = ''cubic'' then Some 3 else None)"

definition interp1d_checked :: "interp1d \<Rightarrow> interp1d" where
  "interp1d_checked build kind x y =
     (case spline_order kind of
        None \<Rightarrow> build kind x y
      | Some k \<Rightarrow> if length x < k + 1 then Inl ValueError else build kind x y)"

text \<open>
  For evaluating a path on concrete numbers: the double product of two factors whose
  exact product is a double itself, such as \<open>3 * 1\<close> and \<open>5 * 60\<close>, where nothing is
  rounded.
\<close>

definition exact_product :: float_product where
  "exact_product a b = a * b"

section \<open>Properties\<close>

subsection \<open>The search for the enclosing pair\<close>

lemma first_enclosing_Some:
  "first_enclosing q ts i = Some j \<Longrightarrow>
     i \<le> j \<and> j - i + 1 < length ts \<and> ts ! (j - i) \<le> q \<and> q \<le> ts ! (j - i + 1)"
proof (induction q ts i rule: first_enclosing.induct)
  case (1 q a b ts i)
  show ?case
  proof (cases "a \<le> q \<and> q \<le> b")
    case True
    with "1.prems" show ?thesis by simp
  next
    case False
    with "1.prems" have rec: "first_enclosing q (b # ts) (Suc i) = Some j" by simp
    from "1.IH"[OF False rec] have ih: "Suc i \<le> j" "j - Suc i + 1 < length (b # ts)"
      "(b # ts) ! (j - Suc i) \<le> q" "q \<le> (b # ts) ! (j - Suc i + 1)" by auto
    from ih(1) have e: "j - i = Suc (j - Suc i)" by simp
    show ?thesis using ih unfolding e by simp
  qed
qed simp_all

lemma first_enclosing_below:
  "sorted ts \<Longrightarrow> ts \<noteq> [] \<Longrightarrow> q < hd ts \<Longrightarrow> first_enclosing q ts i = None"
  by (induction q ts i rule: first_enclosing.induct) auto

lemma first_enclosing_above:
  "sorted ts \<Longrightarrow> ts \<noteq> [] \<Longrightarrow> last ts < q \<Longrightarrow> first_enclosing q ts i = None"
proof (induction q ts i rule: first_enclosing.induct)
  case (1 q a b ts i)
  from "1.prems"(1) have "b \<le> last (b # ts)" by (cases ts) auto
  with "1.prems"(3) have nb: "\<not> q \<le> b" by simp
  from "1.prems" have "first_enclosing q (b # ts) (Suc i) = None"
    using "1.IH" nb by simp
  with nb show ?case by simp
qed simp_all

lemma first_enclosing_inside:
  "2 \<le> length ts \<Longrightarrow> hd ts \<le> q \<Longrightarrow> q \<le> last ts \<Longrightarrow> \<exists>j. first_enclosing q ts i = Some j"
proof (induction q ts i rule: first_enclosing.induct)
  case (1 q a b ts i)
  show ?case
  proof (cases "q \<le> b")
    case True
    with "1.prems" show ?thesis by simp
  next
    case False
    with "1.prems"(3) have ne: "ts \<noteq> []" by auto
    with "1.prems"(3) have l: "q \<le> last (b # ts)" by simp
    from ne have "2 \<le> length (b # ts)" by (cases ts) auto
    with False l "1.IH" have "\<exists>j. first_enclosing q (b # ts) (Suc i) = Some j" by simp
    with False show ?thesis by simp
  qed
qed simp_all

lemma find_snapshot_indices_nonempty:
  "T \<noteq> [] \<Longrightarrow> \<exists>i j. find_snapshot_indices q T = Inr (i, j)"
  by (cases T) (auto simp: find_snapshot_indices_def split: option.splits)


subsection \<open>Queries outside the range of the timestamps\<close>

text \<open>
  Claim C2, as the code has it. On a sorted, non-empty sequence \<open>T\<close> of \<open>N\<close> timestamps,
  \<^const>\<open>find_snapshot_indices\<close> returns \<open>(0, 0)\<close> for every query strictly below \<open>T[0]\<close>
  and \<open>(N-1, N-1)\<close> for every query strictly above \<open>T[N-1]\<close>; with a single timestamp it
  returns \<open>(0, 0)\<close> for every query. With \<open>N \<ge> 2\<close> a query equal to \<open>T[0]\<close> gets the pair
  \<open>(0, 1)\<close>, and a query equal to \<open>T[N-1]\<close> gets a pair \<open>(i, i+1)\<close>: the loop's comparison
  \<^verbatim>\<open><=\<close> takes both ends before the clamp is reached.
\<close>

theorem resampler_clamps_strictly_outside:
  assumes "sorted T" and "T \<noteq> []"
  shows "(q < T ! 0 \<longrightarrow> find_snapshot_indices q T = Inr (0, 0)) \<and>
         (T ! (length T - 1) < q \<longrightarrow>
            find_snapshot_indices q T = Inr (length T - 1, length T - 1)) \<and>
         (length T = 1 \<longrightarrow> find_snapshot_indices q T = Inr (0, 0)) \<and>
         (2 \<le> length T \<and> q = T ! 0 \<longrightarrow> find_snapshot_indices q T = Inr (0, 1)) \<and>
         (2 \<le> length T \<and> q = T ! (length T - 1) \<longrightarrow>
            (\<exists>i. i + 1 < length T \<and> find_snapshot_indices q T = Inr (i, i + 1)))"
proof (intro conjI impI)
  from assms(2) have hd: "hd T = T ! 0" by (simp add: hd_conv_nth)
  from assms(2) have lst: "last T = T ! (length T - 1)" by (simp add: last_conv_nth)
  from assms(2) obtain t0 ts where T: "T = t0 # ts" by (cases T) auto
  { assume "q < T ! 0"
    with assms hd have "first_enclosing q T 0 = None" by (simp add: first_enclosing_below)
    with \<open>q < T ! 0\<close> T show "find_snapshot_indices q T = Inr (0, 0)"
      by (simp add: find_snapshot_indices_def) }
  { assume a: "T ! (length T - 1) < q"
    with assms lst have n: "first_enclosing q T 0 = None" by (simp add: first_enclosing_above)
    from assms(1) T have "t0 \<le> T ! (length T - 1)"
      by (metis assms(2) lst last_in_set sorted_simps(2) order_refl set_ConsD)
    with a have "\<not> q < t0" by simp
    with n T show "find_snapshot_indices q T = Inr (length T - 1, length T - 1)"
      by (simp add: find_snapshot_indices_def) }
  { assume "length T = 1"
    with T have "ts = []" by simp
    with T show "find_snapshot_indices q T = Inr (0, 0)"
      by (simp add: find_snapshot_indices_def) }
  { assume a: "2 \<le> length T \<and> q = T ! 0"
    with T obtain t1 ts' where ts: "ts = t1 # ts'" by (cases ts) auto
    from assms(1) T ts have "t0 \<le> t1" by simp
    with a T ts show "find_snapshot_indices q T = Inr (0, 1)"
      by (simp add: find_snapshot_indices_def) }
  { assume a: "2 \<le> length T \<and> q = T ! (length T - 1)"
    have "\<exists>i. first_enclosing q T 0 = Some i"
    proof (rule first_enclosing_inside)
      show "2 \<le> length T" using a by simp
      show "q \<le> last T" using a lst by simp
      from assms(1) T have "t0 \<le> T ! (length T - 1)"
        by (metis assms(2) lst last_in_set sorted_simps(2) order_refl set_ConsD)
      then show "hd T \<le> q" using a T by simp
    qed
    then obtain i where i: "first_enclosing q T 0 = Some i" by blast
    from first_enclosing_Some[OF i] have "i + 1 < length T" by simp
    with i show "\<exists>i. i + 1 < length T \<and> find_snapshot_indices q T = Inr (i, i + 1)"
      by (auto simp: find_snapshot_indices_def) }
qed

theorem resampler_clamps_strictly_outside_witness:
  "find_snapshot_indices (- 1) [0, 1, 2] = Inr (0, 0) \<and>
   find_snapshot_indices 3 [0, 1, 2] = Inr (2, 2) \<and>
   find_snapshot_indices 5 [7] = Inr (0, 0) \<and>
   find_snapshot_indices 0 [0, 1, 2] = Inr (0, 1) \<and>
   (\<exists>i. i + 1 < length [0, 1, 2 :: real] \<and> find_snapshot_indices 2 [0, 1, 2] = Inr (i, i + 1))"
proof -
  have s: "sorted [0, 1, 2 :: real]" and n: "[0, 1, 2 :: real] \<noteq> []" by simp_all
  have s1: "sorted [7 :: real]" and n1: "[7 :: real] \<noteq> []" by simp_all
  show ?thesis
    using resampler_clamps_strictly_outside [OF s n, of "- 1"]
      resampler_clamps_strictly_outside [OF s n, of 3]
      resampler_clamps_strictly_outside [OF s1 n1, of 5]
      resampler_clamps_strictly_outside [OF s n, of 0]
      resampler_clamps_strictly_outside [OF s n, of 2]
    by simp
qed


text \<open>
  The claim as stated, with \<open>q \<le> T[0]\<close> and \<open>q \<ge> T[N-1]\<close>, fails at both ends of
  \<open>T = [0, 1]\<close>: the queries \<open>0\<close> and \<open>1\<close> both get the pair \<open>(0, 1)\<close>.
\<close>

theorem resampler_clamp_counterexample:
  "sorted [0, 1 :: real] \<and> (0 :: real) \<le> [0, 1] ! 0 \<and>
   find_snapshot_indices 0 [0, 1] \<noteq> Inr (0, 0) \<and>
   [0, 1] ! (length [0, 1 :: real] - 1) \<le> (1 :: real) \<and>
   find_snapshot_indices 1 [0, 1] \<noteq> Inr (1, 1)"
  by (simp add: find_snapshot_indices_def)


subsection \<open>No validation of the timestamps\<close>

text \<open>
  Claim C7, as the code has it. \<^const>\<open>find_snapshot_indices\<close> checks neither order nor
  duplicates: on every non-empty sequence it returns a pair, and on the empty sequence it
  fails with IndexError. The caller, \<^verbatim>\<open>export_for_video\<close>, sorts the timestamps itself
  and raises ValueError when there are fewer than two.
\<close>

theorem resampler_accepts_any_order:
  "find_snapshot_indices q [] = Inl IndexError \<and>
   (T \<noteq> [] \<longrightarrow> (\<exists>i j. find_snapshot_indices q T = Inr (i, j))) \<and>
   (length keys < 2 \<longrightarrow> export_sorted_times keys = Inl ValueError) \<and>
   (2 \<le> length keys \<longrightarrow>
      (\<exists>ts. export_sorted_times keys = Inr ts \<and> sorted ts \<and> set ts = set keys \<and> length ts = length keys))"
  using find_snapshot_indices_nonempty [of T q]
  by (auto simp: find_snapshot_indices_def export_sorted_times_def)

theorem resampler_accepts_any_order_witness:
  "(\<exists>i j. find_snapshot_indices 6 [5, 2, 8] = Inr (i, j)) \<and>
   export_sorted_times [3] = Inl ValueError \<and>
   (\<exists>ts. export_sorted_times [5, 2, 8] = Inr ts \<and> sorted ts \<and> set ts = set [5, 2, 8] \<and> length ts = length [5, 2, 8 :: real])"
  using resampler_accepts_any_order [of 6 "[5, 2, 8]" "[3]"]
    resampler_accepts_any_order [of 6 "[5, 2, 8]" "[5, 2, 8]"]
  by simp

text \<open>
  The sequence \<open>[5, 2, 8]\<close> of the claim is accepted: the query \<open>6\<close> gets the pair
  \<open>(1, 2)\<close>. So is the duplicate \<open>[1, 1]\<close>, and the exporter turns \<open>[5, 2, 8]\<close> into
  \<open>[2, 5, 8]\<close>.
\<close>

theorem resampler_invalid_input_counterexample:
  "\<not> sorted_wrt (<) [5, 2, 8 :: real] \<and> find_snapshot_indices 6 [5, 2, 8] = Inr (1, 2) \<and>
   \<not> sorted_wrt (<) [1, 1 :: real] \<and> find_snapshot_indices 1 [1, 1] = Inr (0, 1) \<and>
   export_sorted_times [5, 2, 8] = Inr [2, 5, 8]"
  by (simp add: find_snapshot_indices_def export_sorted_times_def)


subsection \<open>The blend factor\<close>

lemma enclosed_factor:
  assumes "t1 \<le> q" "q \<le> t2"
  shows "interpolation_factor q t1 t2 = spec_blend_factor q t1 t2"
proof (cases "t1 = t2")
  case True
  then show ?thesis by (simp add: interpolation_factor_def spec_blend_factor_def)
next
  case False
  with assms have lt: "0 < t2 - t1" by simp
  from assms lt have "0 \<le> (q - t1) / (t2 - t1)" "(q - t1) / (t2 - t1) \<le> 1" by simp_all
  with False show ?thesis
    by (auto simp: interpolation_factor_def spec_blend_factor_def clip_def)
qed

text \<open>
  Claim C4, as the code has it. \<^const>\<open>interpolation_factor\<close> is 0 on a bracket of
  duration zero and the quotient \<open>(q - t_i) / (t_j - t_i)\<close> otherwise, with no clamp. For
  \<open>t_i < t_j\<close> it agrees with the clamped value of the specification exactly when
  \<open>t_i \<le> q \<le> t_j\<close>, which is the case for every pair of distinct indices that
  \<^const>\<open>find_snapshot_indices\<close> returns.
\<close>

theorem blend_factor_is_unclamped_quotient:
  "interpolation_factor q t t = 0 \<and>
   (t_i \<noteq> t_j \<longrightarrow> interpolation_factor q t_i t_j = (q - t_i) / (t_j - t_i)) \<and>
   (t_i < t_j \<longrightarrow>
      (interpolation_factor q t_i t_j = spec_blend_factor q t_i t_j) = (t_i \<le> q \<and> q \<le> t_j)) \<and>
   (find_snapshot_indices q T = Inr (i, j) \<and> i \<noteq> j \<longrightarrow>
      interpolation_factor q (T ! i) (T ! j) = spec_blend_factor q (T ! i) (T ! j))"
proof (intro conjI impI)
  show "interpolation_factor q t t = 0" by (simp add: interpolation_factor_def)
  show "interpolation_factor q t_i t_j = (q - t_i) / (t_j - t_i)" if "t_i \<noteq> t_j"
    using that by (auto simp: interpolation_factor_def)
  show "(interpolation_factor q t_i t_j = spec_blend_factor q t_i t_j) = (t_i \<le> q \<and> q \<le> t_j)"
    if lt: "t_i < t_j"
  proof
    assume eq: "interpolation_factor q t_i t_j = spec_blend_factor q t_i t_j"
    from lt have "spec_blend_factor q t_i t_j = clip ((q - t_i) / (t_j - t_i)) 0 1"
      by (simp add: spec_blend_factor_def)
    with eq lt have "(q - t_i) / (t_j - t_i) = clip ((q - t_i) / (t_j - t_i)) 0 1"
      by (simp add: interpolation_factor_def)
    hence "0 \<le> (q - t_i) / (t_j - t_i) \<and> (q - t_i) / (t_j - t_i) \<le> 1"
      by (auto simp: clip_def min_def max_def split: if_splits)
    with lt show "t_i \<le> q \<and> q \<le> t_j" by (simp add: field_simps)
  next
    assume "t_i \<le> q \<and> q \<le> t_j"
    then show "interpolation_factor q t_i t_j = spec_blend_factor q t_i t_j"
      by (simp add: enclosed_factor)
  qed
  show "interpolation_factor q (T ! i) (T ! j) = spec_blend_factor q (T ! i) (T ! j)"
    if h: "find_snapshot_indices q T = Inr (i, j) \<and> i \<noteq> j"
  proof -
    from h obtain k where k: "first_enclosing q T 0 = Some k" and ij: "i = k" "j = k + 1"
      by (auto simp: find_snapshot_indices_def split: option.splits list.splits if_splits)
    from first_enclosing_Some[OF k] ij have "T ! i \<le> q" "q \<le> T ! j" by simp_all
    then show ?thesis by (rule enclosed_factor)
  qed
qed

theorem blend_factor_is_unclamped_quotient_witness:
  "interpolation_factor 3 1 5 = (3 - 1) / (5 - 1) \<and>
   (interpolation_factor 3 1 5 = spec_blend_factor 3 1 5) = ((1::real) \<le> 3 \<and> (3::real) \<le> 5) \<and>
   interpolation_factor 3 ([1, 5] ! 0) ([1, 5] ! 1) = spec_blend_factor 3 ([1, 5] ! 0) ([1, 5] ! 1)"
proof -
  have f: "find_snapshot_indices 3 [1, 5] = Inr (0, 1) \<and> (0::nat) \<noteq> 1"
    by (simp add: find_snapshot_indices_def)
  show ?thesis
    using blend_factor_is_unclamped_quotient [of 3 0 1 5 "[1, 5]" 0 1] f by simp
qed

text \<open>
  The frame interpolator keeps the bracket \<open>(0, N-1)\<close> for a query outside the range: for
  \<open>T = [0, 1]\<close> and \<open>q = 2\<close> the factor is 2, where the claim's clamp gives 1.
\<close>

theorem blend_factor_clamp_counterexample:
  "(0::real) \<le> 1 \<and> surrounding_snapshots [0, 1] 2 = (0, 1) \<and>
   interpolation_factor 2 ([0, 1] ! 0) ([0, 1] ! 1) = 2 \<and>
   spec_blend_factor 2 ([0, 1] ! 0) ([0, 1] ! 1) = 1"
  by (simp add: surrounding_snapshots_def interpolation_factor_def spec_blend_factor_def clip_def)

subsection \<open>Camera paths\<close>

lemma nat_py_int: "nat (py_int r) = nat \<lfloor>r\<rfloor>"
proof (cases "0 \<le> r")
  case True
  then show ?thesis by (simp add: py_int_def)
next
  case False
  hence "\<lceil>r\<rceil> \<le> 0" "\<lfloor>r\<rfloor> \<le> 0" by (simp_all add: le_floor_iff)
  with False show ?thesis by (simp add: py_int_def)
qed

lemma generate_camera_path_Inr:
  assumes "interp smoothing (map kf_time kps) (map kf_azimuth kps) = Inr fa"
    and "interp smoothing (map kf_time kps) (map kf_elevation kps) = Inr fe"
    and "interp smoothing (map kf_time kps) (map kf_distance kps) = Inr fd"
  shows "generate_camera_path interp fmul kps duration fps smoothing =
           Inr (map (\<lambda>f. \<lparr>frame = f, time = real f / real_of_int fps,
                          azimuth = fa (real f / real_of_int fps),
                          elevation = fe (real f / real_of_int fps),
                          distance = fd (real f / real_of_int fps)\<rparr>)
                    [0..<nat \<lfloor>fmul duration (real_of_int fps)\<rfloor>])"
  using assms by (simp add: generate_camera_path_def Let_def nat_py_int)

text \<open>
  Claim C6 promises \<open>floor(duration * fps)\<close> poses for every list of at least two keyframes
  with strictly increasing times. The code does not return them for the default smoothing:
  with two keyframes at the times 0 and 5, a duration of 5, 60 frames per second and the
  kind \<^verbatim>\<open>'cubic'\<close>, the construction of the first interpolating function raises
  ValueError and \<^const>\<open>generate_camera_path\<close> returns no pose, where the claim has 300.
  Three keyframes fail in the same way. This holds whatever the rest of the construction
  and the double product are.
\<close>

theorem cubic_path_from_few_keyframes_fails:
  "generate_camera_path (interp1d_checked build) fmul
     [\<lparr>kf_time = 0, kf_azimuth = - 45, kf_elevation = 30, kf_distance = 10\<rparr>,
      \<lparr>kf_time = 5, kf_azimuth = 315, kf_elevation = 30, kf_distance = 10\<rparr>] 5 60 ''cubic''
     = Inl ValueError \<and>
   generate_camera_path (interp1d_checked build) fmul
     [\<lparr>kf_time = 0, kf_azimuth = - 45, kf_elevation = 30, kf_distance = 12\<rparr>,
      \<lparr>kf_time = 5 / 2, kf_azimuth = - 45, kf_elevation = 30, kf_distance = 5\<rparr>,
      \<lparr>kf_time = 5, kf_azimuth = - 45, kf_elevation = 30, kf_distance = 12\<rparr>] 5 60 ''cubic''
     = Inl ValueError"
  by (simp add: generate_camera_path_def interp1d_checked_def spline_order_def)

text \<open>
  Claim C8, as the code has it. The distance of the pose at index \<open>f\<close> is the value of the
  interpolating function at \<open>f / fps\<close>, as it comes: nothing checks or clamps it.
\<close>

theorem camera_distance_is_interpolant:
  assumes "interp smoothing (map kf_time kps) (map kf_azimuth kps) = Inr fa"
    and "interp smoothing (map kf_time kps) (map kf_elevation kps) = Inr fe"
    and "interp smoothing (map kf_time kps) (map kf_distance kps) = Inr fd"
  shows "\<exists>path. generate_camera_path interp fmul kps duration fps smoothing = Inr path \<and>
           (\<forall>f < length path. distance (path ! f) = fd (real f / real_of_int fps))"
proof -
  have "generate_camera_path interp fmul kps duration fps smoothing =
           Inr (map (\<lambda>f. \<lparr>frame = f, time = real f / real_of_int fps,
                          azimuth = fa (real f / real_of_int fps),
                          elevation = fe (real f / real_of_int fps),
                          distance = fd (real f / real_of_int fps)\<rparr>)
                    [0..<nat \<lfloor>fmul duration (real_of_int fps)\<rfloor>])"
    using assms by (rule generate_camera_path_Inr)
  then show ?thesis by simp
qed

theorem camera_distance_is_interpolant_witness:
  "\<exists>path. generate_camera_path interp1d_linear exact_product
       [\<lparr>kf_time = 0, kf_azimuth = 0, kf_elevation = 30, kf_distance = 10\<rparr>,
        \<lparr>kf_time = 1, kf_azimuth = 0, kf_elevation = 30, kf_distance = 1\<rparr>] 3 1 ''linear''
       = Inr path \<and> 2 < length path \<and>
     distance (path ! 2) = linear_segments [0, 1] [10, 1] (real 2 / real_of_int 1)"
proof -
  let ?kps = "[\<lparr>kf_time = 0, kf_azimuth = 0, kf_elevation = 30, kf_distance = 10\<rparr>,
        \<lparr>kf_time = 1, kf_azimuth = 0, kf_elevation = 30, kf_distance = 1\<rparr>]"
  have a: "interp1d_linear ''linear'' (map kf_time ?kps) (map kf_azimuth ?kps)
             = Inr (linear_segments (map kf_time ?kps) (map kf_azimuth ?kps))"
    and e: "interp1d_linear ''linear'' (map kf_time ?kps) (map kf_elevation ?kps)
             = Inr (linear_segments (map kf_time ?kps) (map kf_elevation ?kps))"
    and d: "interp1d_linear ''linear'' (map kf_time ?kps) (map kf_distance ?kps)
             = Inr (linear_segments (map kf_time ?kps) (map kf_distance ?kps))"
    by (simp_all add: interp1d_linear_def)
  from camera_distance_is_interpolant [where interp = interp1d_linear and smoothing = "''linear''"
      and kps = ?kps and duration = 3 and fps = 1 and fmul = exact_product, OF a e d]
  obtain path where p: "generate_camera_path interp1d_linear exact_product ?kps 3 1 ''linear'' = Inr path"
    "\<forall>f < length path. distance (path ! f) = linear_segments (map kf_time ?kps) (map kf_distance ?kps) (real f / real_of_int 1)"
    by auto
  have "generate_camera_path interp1d_linear exact_product ?kps 3 1 ''linear'' =
       Inr (map (\<lambda>f. \<lparr>frame = f, time = real f / real_of_int 1,
                          azimuth = linear_segments (map kf_time ?kps) (map kf_azimuth ?kps) (real f / real_of_int 1),
                          elevation = linear_segments (map kf_time ?kps) (map kf_elevation ?kps) (real f / real_of_int 1),
                          distance = linear_segments (map kf_time ?kps) (map kf_distance ?kps) (real f / real_of_int 1)\<rparr>)
                    [0..<nat \<lfloor>exact_product 3 (real_of_int 1)\<rfloor>])"
    by (rule generate_camera_path_Inr [where interp = interp1d_linear and smoothing = "''linear''"
      and kps = ?kps, OF a e d])
  with p(1) have "length path = 3" by (auto simp: exact_product_def)
  hence l: "2 < length path" by simp
  with p(2) have "distance (path ! 2) = linear_segments (map kf_time ?kps) (map kf_distance ?kps) (real 2 / real_of_int 1)"
    by blast
  with p(1) l show ?thesis by auto
qed

text \<open>
  With the keyframes \<open>(time 0, distance 10)\<close> and \<open>(time 1, distance 1)\<close>, linear
  interpolation, a duration of 3 and one frame per second, the third pose is extrapolated
  to the distance \<open>-8\<close>.
\<close>

theorem camera_distance_counterexample:
  "map_sum id (map distance)
     (generate_camera_path interp1d_linear exact_product
        [\<lparr>kf_time = 0, kf_azimuth = 0, kf_elevation = 30, kf_distance = 10\<rparr>,
         \<lparr>kf_time = 1, kf_azimuth = 0, kf_elevation = 30, kf_distance = 1\<rparr>] 3 1 ''linear'')
   = Inr [10, 1, - 8]"
  by (simp add: generate_camera_path_def interp1d_linear_def py_int_def exact_product_def upt_rec)

subsection \<open>The discrete state of a cell\<close>









subsection \<open>The transition probabilities\<close>









subsection \<open>Queries at a timestamp\<close>

















subsection \<open>Snapshots with different cells\<close>

text \<open>
  Claim C5, as the code has it. When the bracket snapshots are two different snapshots
  whose indexes differ, the exporter's \<^const>\<open>interpolate_snapshot\<close> fails with
  ValueError (the comparison of the two state columns), and no frame is produced. Whenever
  a frame is produced, its index is the index of \<open>S_i\<close>, and the index of \<open>S_j\<close> as well:
  a cell of \<open>S_j\<close> alone never appears in a frame.
\<close>

theorem differing_coverage_fails:
  "(i \<noteq> j \<and> i < length T \<and> j < length T \<and> snaps (T ! i) = Some S_i \<and>
      snaps (T ! j) = Some S_j \<and> index S_i \<noteq> index S_j
    \<longrightarrow> interpolate_snapshot q T snaps (i, j) = Inl ValueError) \<and>
   (interpolate_snapshot q T snaps (i, j) = Inr res \<and> snaps (T ! i) = Some S_i
    \<longrightarrow> index res = index S_i) \<and>
   (interpolate_snapshot q T snaps (i, j) = Inr res \<and> snaps (T ! j) = Some S_j
    \<longrightarrow> index res = index S_j)"
proof (intro conjI impI)
  assume "i \<noteq> j \<and> i < length T \<and> j < length T \<and> snaps (T ! i) = Some S_i \<and>
      snaps (T ! j) = Some S_j \<and> index S_i \<noteq> index S_j"
  then show "interpolate_snapshot q T snaps (i, j) = Inl ValueError"
    by (simp add: interpolate_snapshot_def Let_def interpolate_states_def)
next
  assume "interpolate_snapshot q T snaps (i, j) = Inr res \<and> snaps (T ! i) = Some S_i"
  then show "index res = index S_i"
    by (auto simp: interpolate_snapshot_def lookup_snapshot_def Let_def interpolate_states_def
        split: if_splits option.splits sum.splits)
next
  assume "interpolate_snapshot q T snaps (i, j) = Inr res \<and> snaps (T ! j) = Some S_j"
  then show "index res = index S_j"
    by (auto simp: interpolate_snapshot_def lookup_snapshot_def Let_def interpolate_states_def
        split: if_splits option.splits sum.splits)
qed

theorem differing_coverage_fails_witness:
  "interpolate_snapshot (1 / 2) [0, 1]
     [0 \<mapsto> \<lparr>index = [(0, 0), (1, 1)], state = [''Tree'', ''Burning''], moisture = None,
              temperature = None, elevation = None\<rparr>,
      1 \<mapsto> \<lparr>index = [(0, 0)], state = [''Tree''], moisture = None,
              temperature = None, elevation = None\<rparr>] (0, 1) = Inl ValueError \<and>
   index \<lparr>index = [(0, 0)], state = [''Tree''], moisture = None,
              temperature = None, elevation = None\<rparr>
     = index \<lparr>index = [(0, 0)], state = [''Burning''], moisture = None,
              temperature = None, elevation = None\<rparr>"
proof -
  let ?a = "\<lparr>index = [(0, 0), (1, 1)], state = [''Tree'', ''Burning''], moisture = None,
              temperature = None, elevation = None\<rparr>"
  let ?b = "\<lparr>index = [(0, 0)], state = [''Tree''], moisture = None,
              temperature = None, elevation = None\<rparr>"
  let ?c = "\<lparr>index = [(0, 0)], state = [''Burning''], moisture = None,
              temperature = None, elevation = None\<rparr>"
  have f: "(0::nat) \<noteq> 1 \<and> 0 < length [0, 1 :: real] \<and> 1 < length [0, 1 :: real] \<and>
      [(0 :: real) \<mapsto> ?a, 1 \<mapsto> ?b] ([0, 1] ! 0) = Some ?a \<and>
      [(0 :: real) \<mapsto> ?a, 1 \<mapsto> ?b] ([0, 1] ! 1) = Some ?b \<and>
      index ?a \<noteq> index ?b" by simp
  have g: "interpolate_snapshot (3 / 4) [0, 1] [0 \<mapsto> ?b, 1 \<mapsto> ?c] (0, 1) = Inr ?c \<and>
      [(0 :: real) \<mapsto> ?b, 1 \<mapsto> ?c] ([0, 1] ! 0) = Some ?b"
    by (simp add: interpolate_snapshot_def interpolation_factor_def interpolate_states_def
        blend_column_def Let_def)
  have g': "interpolate_snapshot (3 / 4) [0, 1] [0 \<mapsto> ?b, 1 \<mapsto> ?c] (0, 1) = Inr ?c \<and>
      [(0 :: real) \<mapsto> ?b, 1 \<mapsto> ?c] ([0, 1] ! 1) = Some ?c"
    by (simp add: interpolate_snapshot_def interpolation_factor_def interpolate_states_def
        blend_column_def Let_def)
  from differing_coverage_fails [where i = 0 and j = 1 and T = "[0, 1]" and q = "1 / 2"
      and snaps = "[0 \<mapsto> ?a, 1 \<mapsto> ?b]" and S_i = ?a and S_j = ?b and res = ?a] f
  have 1: "interpolate_snapshot (1 / 2) [0, 1] [0 \<mapsto> ?a, 1 \<mapsto> ?b] (0, 1) = Inl ValueError"
    by blast
  from differing_coverage_fails [where i = 0 and j = 1 and T = "[0, 1]" and q = "3 / 4"
      and snaps = "[0 \<mapsto> ?b, 1 \<mapsto> ?c]" and S_i = ?b and S_j = ?c and res = ?c] g g'
  have 2: "index ?c = index ?b" "index ?c = index ?c" by blast+
  from 1 2 show ?thesis by simp
qed

text \<open>
  The example of the claim, \<open>S_i = {(0,0): Tree}\<close> and
  \<open>S_j = {(0,0): Tree, (1,1): Burning}\<close> at the timestamps 0 and 1: the query \<open>1/2\<close> gets
  the pair \<open>(0, 1)\<close> and the interpolation fails, so there is no frame that contains
  \<open>(0,0)\<close>.
\<close>

theorem coverage_rule_counterexample:
  "find_snapshot_indices (1 / 2) [0, 1] = Inr (0, 1) \<and>
   interpolate_snapshot (1 / 2) [0, 1]
     [0 \<mapsto> \<lparr>index = [(0, 0)], state = [''Tree''], moisture = None,
              temperature = None, elevation = None\<rparr>,
      1 \<mapsto> \<lparr>index = [(0, 0), (1, 1)], state = [''Tree'', ''Burning''], moisture = None,
              temperature = None, elevation = None\<rparr>] (0, 1) = Inl ValueError"
  by (simp add: find_snapshot_indices_def interpolate_snapshot_def interpolation_factor_def
      interpolate_states_def Let_def)

end
